theory Spec2Isabelle
  imports Main "HOL-Library.Word"
begin

section \<open>The trigger commands of the iobeam command-line client\<close>

text \<open>
  A shallow embedding of \<^verbatim>\<open>command/triggers.go\<close>. Go's \<^verbatim>\<open>uint64\<close> is a 64-bit word, a
  string is a list of bytes, a struct is a record, struct embedding is record extension,
  the \<^verbatim>\<open>actionArgs\<close> interface with its four implementations is a datatype, and a panic
  or a returned error is a value of the type \<open>error\<close>. Printing to standard output is
  left out: no function here reads it back.
\<close>

type_synonym u64 = "64 word"

subsection \<open>Errors\<close>

datatype error =
    ClientError string          \<comment> \<open>whatever the request's \<^verbatim>\<open>Execute\<close> returned\<close>
  | InvalidActionIndex u64 u64  \<comment> \<open>\<^verbatim>\<open>"Invalid action index: %d (only %d actions)"\<close>\<close>
  | PanicUnknownActionType      \<comment> \<open>\<^verbatim>\<open>panic("Unknown action type")\<close>\<close>
  | PanicSliceBounds            \<comment> \<open>the run-time panic of a slice expression out of range\<close>

subsection \<open>The data of a trigger\<close>

text \<open>
  \<^verbatim>\<open>ReleaseWhenPtr *string\<close> is an optional string: \<open>None\<close> is the nil pointer.
\<close>

record triggerData =
  TriggerId :: u64
  ProjectId :: u64
  Namespace :: string
  TriggerName :: string
  DataExpiry :: u64
  FireWhen :: string
  ReleaseWhenPtr :: "string option"
  releaseWhen :: string
  dumpRequest :: bool
  dumpResponse :: bool

definition IsValid_triggerData :: "'a triggerData_scheme \<Rightarrow> bool" where
  "IsValid_triggerData d \<longleftrightarrow>
     ProjectId d > 0 \<and> length (TriggerName d) > 0 \<and> DataExpiry d \<ge> 0 \<and> length (FireWhen d) > 0"

subsection \<open>The four kinds of action data\<close>

text \<open>
  The field names \<^verbatim>\<open>Payload\<close> and \<^verbatim>\<open>To\<close> occur in several of the Go structs; each
  record field carries its struct's kind as a prefix to keep them apart.
\<close>

record httpActionData =
  http_URL :: string
  http_Payload :: string
  http_AuthHeader :: string
  http_ContentType :: string

definition Valid_http :: "httpActionData \<Rightarrow> bool" where
  "Valid_http d \<longleftrightarrow> length (http_URL d) > 0 \<and> length (http_ContentType d) > 0"

record mqttActionData =
  mqtt_Broker :: string
  mqtt_Username :: string
  mqtt_Password :: string
  mqtt_QoS :: int
  mqtt_Topic :: string
  mqtt_Payload :: string

definition Valid_mqtt :: "mqttActionData \<Rightarrow> bool" where
  "Valid_mqtt d \<longleftrightarrow>
     length (mqtt_Broker d) > 0 \<and> length (mqtt_Topic d) > 0 \<and> length (mqtt_Payload d) > 0"

record smsActionData =
  sms_AccountSID :: string
  sms_AuthToken :: string
  sms_From :: string
  sms_To :: string
  sms_Payload :: string

definition Valid_sms :: "smsActionData \<Rightarrow> bool" where
  "Valid_sms d \<longleftrightarrow>
     length (sms_AccountSID d) > 0 \<and> length (sms_AuthToken d) > 0 \<and> length (sms_From d) > 0
     \<and> length (sms_To d) > 0 \<and> length (sms_Payload d) > 0"

record emailActionData =
  email_To :: "string list"
  email_Subject :: string
  email_Payload :: string

text \<open>\<^verbatim>\<open>len(d.To)\<close> is the length of the slice of recipients, not of a recipient.\<close>

definition Valid_email :: "emailActionData \<Rightarrow> bool" where
  "Valid_email d \<longleftrightarrow> length (email_To d) > 0 \<and> length (email_Payload d) > 0"

text \<open>
  A value of the interface \<^verbatim>\<open>actionArgs\<close>: a pointer to one of the four structs, or the
  nil interface value \<open>NoArgs\<close>, the zero value of the \<^verbatim>\<open>data\<close> field.
\<close>

datatype actionArgs =
    EmailArgs emailActionData
  | HttpArgs httpActionData
  | MqttArgs mqttActionData
  | SmsArgs smsActionData
  | NoArgs

fun getActionArgs :: "string \<Rightarrow> error + actionArgs" where
  "getActionArgs action =
     (if action = ''email'' then
        Inr (EmailArgs \<lparr>email_To = replicate 1 '''', email_Subject = '''', email_Payload = ''''\<rparr>)
      else if action = ''http'' then
        Inr (HttpArgs \<lparr>http_URL = '''', http_Payload = '''', http_AuthHeader = '''',
                       http_ContentType = ''''\<rparr>)
      else if action = ''mqtt'' then
        Inr (MqttArgs \<lparr>mqtt_Broker = '''', mqtt_Username = '''', mqtt_Password = '''',
                       mqtt_QoS = 0, mqtt_Topic = '''', mqtt_Payload = ''''\<rparr>)
      else if action = ''sms'' then
        Inr (SmsArgs \<lparr>sms_AccountSID = '''', sms_AuthToken = '''', sms_From = '''',
                      sms_To = '''', sms_Payload = ''''\<rparr>)
      else Inl PanicUnknownActionType)"

fun getActionType :: "actionArgs \<Rightarrow> error + string" where
  "getActionType (EmailArgs _) = Inr ''email''"
| "getActionType (HttpArgs _) = Inr ''http''"
| "getActionType (MqttArgs _) = Inr ''mqtt''"
| "getActionType (SmsArgs _) = Inr ''sms''"
| "getActionType NoArgs = Inl PanicUnknownActionType"

text \<open>The method \<^verbatim>\<open>Valid\<close> dispatches on the dynamic type; on nil it panics.\<close>

fun Valid :: "actionArgs \<Rightarrow> bool option" where
  "Valid (EmailArgs d) = Some (Valid_email d)"
| "Valid (HttpArgs d) = Some (Valid_http d)"
| "Valid (MqttArgs d) = Some (Valid_mqtt d)"
| "Valid (SmsArgs d) = Some (Valid_sms d)"
| "Valid NoArgs = None"

text \<open>
  What \<^verbatim>\<open>setFlags\<close> does to the email data once the flag set is parsed: the values of
  \<^verbatim>\<open>-to\<close>, \<^verbatim>\<open>-subject\<close> and \<^verbatim>\<open>-payload\<close> (each defaulting to the empty string) are
  stored through \<^verbatim>\<open>&d.To[0]\<close>, \<^verbatim>\<open>&d.Subject\<close> and \<^verbatim>\<open>&d.Payload\<close>.
\<close>

definition setFlags_email :: "string \<Rightarrow> string \<Rightarrow> string \<Rightarrow> emailActionData \<Rightarrow> emailActionData" where
  "setFlags_email to subject payload d =
     d\<lparr>email_To := (email_To d)[0 := to], email_Subject := subject, email_Payload := payload\<rparr>"

subsection \<open>Triggers as sent and received\<close>

text \<open>
  \<^verbatim>\<open>Args interface{}\<close> holds the bound action data when the client builds the action,
  and whatever the JSON decoder produced (a value of the type parameter \<open>'j\<close>) when the
  trigger was fetched.
\<close>

datatype 'j anyArgs = Decoded 'j | Bound actionArgs

record 'j triggerAction =
  Type :: string
  MinDelay :: u64
  Args :: "'j anyArgs"

record 'j fullTrigger = triggerData +
  Actions :: "'j triggerAction list"

text \<open>
  \<^verbatim>\<open>newTrigger\<close> leaves the fields it does not name at their zero values and copies the
  actions into a fresh slice of the same length.
\<close>

definition newTrigger ::
  "string \<Rightarrow> u64 \<Rightarrow> u64 \<Rightarrow> string \<Rightarrow> string option \<Rightarrow> string \<Rightarrow> 'j triggerAction list
     \<Rightarrow> 'j fullTrigger" where
  "newTrigger name projectId dataExpiry fireWhen releaseWhenP namespace actions =
     \<lparr>TriggerId = 0, ProjectId = projectId, Namespace = namespace, TriggerName = name,
      DataExpiry = dataExpiry, FireWhen = fireWhen, ReleaseWhenPtr = releaseWhenP,
      releaseWhen = '''', dumpRequest = False, dumpResponse = False, Actions = actions\<rparr>"

text \<open>
  The members that \<^verbatim>\<open>encoding/json\<close> writes for the embedded \<^verbatim>\<open>triggerData\<close>, read off
  its struct tags: an exported field appears under its tag name, a field tagged
  \<^verbatim>\<open>omitempty\<close> is left out when it is zero (a nil pointer, for \<^verbatim>\<open>ReleaseWhenPtr\<close>), and
  the unexported fields never appear.
\<close>

datatype wire = WNum u64 | WStr string

definition wire_triggerData :: "'a triggerData_scheme \<Rightarrow> (string \<times> wire) list" where
  "wire_triggerData d =
     (if TriggerId d = 0 then [] else [(''trigger_id'', WNum (TriggerId d))])
     @ [(''project_id'', WNum (ProjectId d)),
        (''namespace'', WStr (Namespace d)),
        (''trigger_name'', WStr (TriggerName d))]
     @ (if DataExpiry d = 0 then [] else [(''data_expiry'', WNum (DataExpiry d))])
     @ [(''fire_when'', WStr (FireWhen d))]
     @ (case ReleaseWhenPtr d of None \<Rightarrow> [] | Some s \<Rightarrow> [(''release_when'', WStr s)])"

subsection \<open>Requests\<close>

text \<open>
  Modelled from the spec: the request builder of the HTTP client (\<^verbatim>\<open>ctx.Client.Get\<close>,
  \<^verbatim>\<open>Param\<close>, \<^verbatim>\<open>Expect\<close>, \<^verbatim>\<open>ProjectToken\<close>, \<^verbatim>\<open>Body\<close>, ...) is an external collaborator
  "consumed only through its request/response contract". A request is the record of what
  the builder calls put into it.
\<close>

datatype verb = GET | POST | PUT | DELETE

record 'j request =
  req_verb :: verb
  req_path :: string
  req_params :: "(string \<times> string) list"
  req_expect :: nat
  req_project :: "u64 option"
  req_dumpRequest :: bool
  req_dumpResponse :: bool
  req_body :: "'j fullTrigger option"

definition newRequest :: "verb \<Rightarrow> string \<Rightarrow> 'j request" where
  "newRequest v p =
     \<lparr>req_verb = v, req_path = p, req_params = [], req_expect = 0, req_project = None,
      req_dumpRequest = False, req_dumpResponse = False, req_body = None\<rparr>"

definition Param :: "string \<Rightarrow> string \<Rightarrow> 'j request \<Rightarrow> 'j request" where
  "Param k v r = r\<lparr>req_params := req_params r @ [(k, v)]\<rparr>"

definition Expect :: "nat \<Rightarrow> 'j request \<Rightarrow> 'j request" where
  "Expect n r = r\<lparr>req_expect := n\<rparr>"

definition ProjectToken :: "u64 \<Rightarrow> 'j request \<Rightarrow> 'j request" where
  "ProjectToken p r = r\<lparr>req_project := Some p\<rparr>"

definition DumpRequest :: "bool \<Rightarrow> 'j request \<Rightarrow> 'j request" where
  "DumpRequest b r = r\<lparr>req_dumpRequest := b\<rparr>"

definition DumpResponse :: "bool \<Rightarrow> 'j request \<Rightarrow> 'j request" where
  "DumpResponse b r = r\<lparr>req_dumpResponse := b\<rparr>"

definition Body :: "'j fullTrigger \<Rightarrow> 'j request \<Rightarrow> 'j request" where
  "Body t r = r\<lparr>req_body := Some t\<rparr>"

text \<open>
  \<^verbatim>\<open>Execute\<close>: the server and the transport are a function from the request to the error
  returned (\<open>None\<close> is Go's nil) and the trigger decoded into the response body.
\<close>

type_synonym 'j client = "'j request \<Rightarrow> error option \<times> 'j fullTrigger"

subsection \<open>Resource paths\<close>

definition digit :: "nat \<Rightarrow> char" where
  "digit d = ''0123456789'' ! d"

function decimal :: "nat \<Rightarrow> string" where
  "decimal n = (if n < 10 then [digit n] else decimal (n div 10) @ [digit (n mod 10)])"
  by pat_completeness auto
termination
  by (relation "measure id") auto

declare decimal.simps [simp del]

text \<open>
  Modelled from the spec: \<^verbatim>\<open>getUrlForResource\<close> is defined in a file that is not among
  the sources. The spec gives the path of one trigger as \<^verbatim>\<open>/v1/triggers/{id}\<close>: the base
  path, a slash and the id in decimal.
\<close>

definition getUrlForResource :: "string \<Rightarrow> u64 \<Rightarrow> string" where
  "getUrlForResource base ident = base @ ''/'' @ decimal (unat ident)"

text \<open>\<^verbatim>\<open>baseApiPath[keyTrigger]\<close>, as \<^verbatim>\<open>init\<close> sets it.\<close>

definition baseApiPath_trigger :: string where
  "baseApiPath_trigger = ''/v1/triggers''"

definition getUrlForTriggerId :: "u64 \<Rightarrow> string" where
  "getUrlForTriggerId ident = getUrlForResource baseApiPath_trigger ident"

subsection \<open>Looking a trigger up\<close>

record triggerBaseArgs =
  projectId :: u64
  triggerId :: u64
  triggerName :: string

definition IsValid_triggerBaseArgs :: "'a triggerBaseArgs_scheme \<Rightarrow> bool" where
  "IsValid_triggerBaseArgs a \<longleftrightarrow>
     projectId a > 0 \<and> (triggerId a > 0 \<or> length (triggerName a) > 0)"

definition getApiPath :: "'a triggerBaseArgs_scheme \<Rightarrow> string" where
  "getApiPath a = (if triggerId a > 0 then getUrlForTriggerId (triggerId a) else baseApiPath_trigger)"

text \<open>
  The functions that talk to the server return, first, the requests they executed, in
  order; the rest is what the Go function returns. \<open>getTrigger'\<close> and \<open>putTrigger'\<close>
  are Go's \<^verbatim>\<open>_getTrigger\<close> and \<^verbatim>\<open>_putTrigger\<close>.
\<close>

definition getTriggerRequest :: "'a triggerBaseArgs_scheme \<Rightarrow> 'j request" where
  "getTriggerRequest args =
     (let req = newRequest GET (getApiPath args);
          req = (if triggerId args \<le> 0 then Param ''name'' (triggerName args) req else req)
      in ProjectToken (projectId args) (Expect 200 req))"

definition getTrigger' ::
  "'j client \<Rightarrow> 'a triggerBaseArgs_scheme \<Rightarrow> 'j request list \<times> 'j fullTrigger \<times> error option" where
  "getTrigger' client args =
     (let req = getTriggerRequest args; (err, res) = client req in ([req], res, err))"

definition getTrigger :: "'j client \<Rightarrow> triggerBaseArgs \<Rightarrow> 'j request list \<times> error option" where
  "getTrigger client args = (let (sent, t, err) = getTrigger' client args in (sent, err))"

definition deleteTriggerRequest :: "'a triggerBaseArgs_scheme \<Rightarrow> 'j request" where
  "deleteTriggerRequest args =
     (let req = newRequest DELETE (getApiPath args);
          req = (if triggerId args \<le> 0 then Param ''name'' (triggerName args) req else req)
      in ProjectToken (projectId args) (Expect 204 req))"

definition deleteTrigger :: "'j client \<Rightarrow> triggerBaseArgs \<Rightarrow> 'j request list \<times> error option" where
  "deleteTrigger client args =
     (let req = deleteTriggerRequest args; (err, res) = client req in ([req], err))"

subsection \<open>Writing a trigger back\<close>

definition putTriggerRequest :: "'j fullTrigger \<Rightarrow> 'j request" where
  "putTriggerRequest trigger =
     Body trigger (ProjectToken (ProjectId trigger)
       (Expect 200 (newRequest PUT (getUrlForTriggerId (TriggerId trigger)))))"

definition putTrigger' :: "'j client \<Rightarrow> 'j fullTrigger \<Rightarrow> 'j request list \<times> error option" where
  "putTrigger' client trigger =
     (let req = putTriggerRequest trigger; (err, res) = client req in ([req], err))"

subsection \<open>Removing an action\<close>

record triggerRemoveActionArgs = triggerBaseArgs +
  index :: u64

definition IsValid_triggerRemoveActionArgs :: "triggerRemoveActionArgs \<Rightarrow> bool" where
  "IsValid_triggerRemoveActionArgs a \<longleftrightarrow> IsValid_triggerBaseArgs a \<and> index a > 0"

text \<open>
  The slice expressions \<^verbatim>\<open>s[:hi]\<close> and \<^verbatim>\<open>s[lo:]\<close> with \<^verbatim>\<open>uint64\<close> operands. Go panics
  when \<^verbatim>\<open>lo\<close> exceeds the length. \<^verbatim>\<open>s[:hi]\<close> is checked against the capacity, which is
  at least the length; \<open>slice_to\<close> treats a slice as full, and \<open>delAction\<close> reaches it
  only with \<open>hi\<close> within the length.
\<close>

definition slice_to :: "'a list \<Rightarrow> u64 \<Rightarrow> error + 'a list" where
  "slice_to s hi = (if unat hi \<le> length s then Inr (take (unat hi) s) else Inl PanicSliceBounds)"

definition slice_from :: "'a list \<Rightarrow> u64 \<Rightarrow> error + 'a list" where
  "slice_from s lo = (if unat lo \<le> length s then Inr (drop (unat lo) s) else Inl PanicSliceBounds)"

definition delAction :: "'j client \<Rightarrow> triggerRemoveActionArgs \<Rightarrow> 'j request list \<times> error option" where
  "delAction client args =
     (let (sent, trigger, err) = getTrigger' client args in
      case err of
        Some e \<Rightarrow> (sent, Some e)
      | None \<Rightarrow>
         (let idx = index args - 1;
              lenActions = (of_nat (length (Actions trigger)) :: u64)
          in if idx > lenActions then (sent, Some (InvalidActionIndex (index args) lenActions))
             else
               (case slice_to (Actions trigger) idx of
                  Inl p \<Rightarrow> (sent, Some p)
                | Inr front \<Rightarrow>
                   (case slice_from (Actions trigger) (idx + 1) of
                      Inl p \<Rightarrow> (sent, Some p)
                    | Inr back \<Rightarrow>
                       (let trigger = trigger\<lparr>Actions := front @ back\<rparr>;
                            (sent', err) = putTrigger' client trigger
                        in (sent @ sent', err))))))"

subsection \<open>Creating a trigger, adding an action\<close>

record createArgs = triggerData +
  create_minDelay :: u64
  create_data :: actionArgs

definition IsValid_createArgs :: "createArgs \<Rightarrow> bool option" where
  "IsValid_createArgs a =
     (if IsValid_triggerData a \<and> create_minDelay a \<ge> 0 then Valid (create_data a) else Some False)"

definition createTrigger :: "string \<Rightarrow> 'j client \<Rightarrow> createArgs \<Rightarrow> 'j request list \<times> error option" where
  "createTrigger apiPath client args =
     (case getActionType (create_data args) of
        Inl p \<Rightarrow> ([], Some p)
      | Inr ty \<Rightarrow>
         (let actions = [\<lparr>Type = ty, MinDelay = create_minDelay args,
                          Args = Bound (create_data args)\<rparr>];
              releasePtr = (if length (releaseWhen args) > 0 then Some (releaseWhen args) else None);
              body = newTrigger (TriggerName args) (ProjectId args) (DataExpiry args)
                       (FireWhen args) releasePtr (Namespace args) actions;
              req = Body body (DumpResponse (dumpResponse args) (DumpRequest (dumpRequest args)
                      (ProjectToken (ProjectId body) (Expect 201 (newRequest POST apiPath)))));
              (err, res) = client req
          in ([req], err)))"

record addActionArgs = triggerBaseArgs +
  add_minDelay :: u64
  add_data :: actionArgs

definition IsValid_addActionArgs :: "addActionArgs \<Rightarrow> bool option" where
  "IsValid_addActionArgs a =
     (if IsValid_triggerBaseArgs a \<and> add_minDelay a \<ge> 0 then Valid (add_data a) else Some False)"

definition addAction :: "'j client \<Rightarrow> addActionArgs \<Rightarrow> 'j request list \<times> error option" where
  "addAction client args =
     (let (sent, trigger, err) = getTrigger' client args in
      case err of
        Some e \<Rightarrow> (sent, Some e)
      | None \<Rightarrow>
         (case getActionType (add_data args) of
            Inl p \<Rightarrow> (sent, Some p)
          | Inr ty \<Rightarrow>
             (let newAction = \<lparr>Type = ty, MinDelay = add_minDelay args,
                               Args = Bound (add_data args)\<rparr>;
                  trigger = trigger\<lparr>Actions := Actions trigger @ [newAction]\<rparr>;
                  (sent', err) = putTrigger' client trigger
              in (sent @ sent', err))))"

subsection \<open>A concrete trigger and server\<close>

text \<open>
  A trigger with three actions, a server that answers every request with it and no error,
  and remove-action arguments with a given action number.
\<close>

definition sample_action :: "string \<Rightarrow> unit triggerAction" where
  "sample_action ty = \<lparr>Type = ty, MinDelay = 0, Args = Decoded ()\<rparr>"

definition sample_trigger :: "unit fullTrigger" where
  "sample_trigger =
     \<lparr>TriggerId = 7, ProjectId = 1, Namespace = ''input'', TriggerName = ''t1'',
      DataExpiry = 0, FireWhen = ''{{temp}}>25'', ReleaseWhenPtr = None, releaseWhen = '''',
      dumpRequest = False, dumpResponse = False,
      Actions = [sample_action ''email'', sample_action ''http'', sample_action ''sms'']\<rparr>"

definition sample_client :: "unit client" where
  "sample_client r = (None, sample_trigger)"

definition sample_remove :: "u64 \<Rightarrow> triggerRemoveActionArgs" where
  "sample_remove i = \<lparr>projectId = 1, triggerId = 7, triggerName = '''', index = i\<rparr>"

definition sample_http :: actionArgs where
  "sample_http =
     HttpArgs \<lparr>http_URL = ''http://x'', http_Payload = '''', http_AuthHeader = '''',
               http_ContentType = ''text/plain''\<rparr>"

definition sample_add :: addActionArgs where
  "sample_add =
     \<lparr>projectId = 1, triggerId = 7, triggerName = '''', add_minDelay = 500,
      add_data = sample_http\<rparr>"

definition sample_base :: "u64 \<Rightarrow> triggerBaseArgs" where
  "sample_base i = \<lparr>projectId = 1, triggerId = i, triggerName = ''t1''\<rparr>"

definition sample_create :: "string \<Rightarrow> createArgs" where
  "sample_create rw =
     \<lparr>TriggerId = 0, ProjectId = 1, Namespace = ''input'', TriggerName = ''t1'',
      DataExpiry = 0, FireWhen = ''{{temp}}>25'', ReleaseWhenPtr = None, releaseWhen = rw,
      dumpRequest = False, dumpResponse = False, create_minDelay = 0,
      create_data = sample_http\<rparr>"

section \<open>Facts about the requests\<close>

lemma getTrigger'_eq:
  "client (getTriggerRequest args) = (err, t) \<Longrightarrow>
     getTrigger' client args = ([getTriggerRequest args], t, err)"
  by (simp add: getTrigger'_def)

lemma unat_len_u64:
  "n < 2 ^ 63 \<Longrightarrow> unat (of_nat n :: u64) = n"
  by (simp add: unat_of_nat)

lemma putTriggerRequest_fields:
  "req_verb (putTriggerRequest t) = PUT"
  "req_path (putTriggerRequest t) = getUrlForTriggerId (TriggerId t)"
  "req_expect (putTriggerRequest t) = 200"
  "req_project (putTriggerRequest t) = Some (ProjectId t)"
  "req_body (putTriggerRequest t) = Some t"
  by (simp_all add: putTriggerRequest_def Body_def ProjectToken_def Expect_def newRequest_def)

lemma putTrigger'_eq:
  "putTrigger' client t = ([putTriggerRequest t], fst (client (putTriggerRequest t)))"
  by (simp add: putTrigger'_def Let_def split: prod.splits)

lemma lookup_fields:
  "req_path (getTriggerRequest b) = getApiPath b"
  "req_params (getTriggerRequest b) = (if triggerId b \<le> 0 then [(''name'', triggerName b)] else [])"
  "req_path (deleteTriggerRequest b) = getApiPath b"
  "req_params (deleteTriggerRequest b) = (if triggerId b \<le> 0 then [(''name'', triggerName b)] else [])"
  by (simp_all add: getTriggerRequest_def deleteTriggerRequest_def Let_def Param_def
        ProjectToken_def Expect_def newRequest_def)

lemma getUrlForTriggerId_eq:
  "getUrlForTriggerId i = ''/v1/triggers/'' @ decimal (unat i)"
  by (simp add: getUrlForTriggerId_def getUrlForResource_def baseApiPath_trigger_def)

lemma addAction_first: "hd (fst (addAction client a)) = getTriggerRequest a"
  by (simp add: addAction_def getTrigger'_def putTrigger'_eq Let_def
        split: prod.splits option.splits sum.splits)

lemma delAction_first: "hd (fst (delAction client r)) = getTriggerRequest r"
  by (auto simp add: delAction_def getTrigger'_def putTrigger'_eq Let_def
        split: prod.splits option.splits sum.splits)

lemma wire_release_when:
  "map_of (wire_triggerData d) ''release_when'' = map_option WStr (ReleaseWhenPtr d)"
  by (simp add: wire_triggerData_def split: option.splits)

section \<open>Validity of the data records\<close>

text \<open>
  C5. A trigger's data is valid exactly when the project id is positive, the trigger name
  and the firing condition are non-empty and the data expiry is at least zero; the
  namespace, the release condition, the trigger id and the two dump flags do not enter.
\<close>

theorem IsValid_triggerData_iff:
  "(IsValid_triggerData d \<longleftrightarrow>
      ProjectId d > 0 \<and> TriggerName d \<noteq> '''' \<and> FireWhen d \<noteq> '''' \<and> DataExpiry d \<ge> 0)
   \<and> IsValid_triggerData
        (d\<lparr>Namespace := ns, ReleaseWhenPtr := rp, releaseWhen := rw, TriggerId := tid,
           dumpRequest := dq, dumpResponse := dr\<rparr>) = IsValid_triggerData d"
  by (auto simp: IsValid_triggerData_def)

text \<open>
  C6. Http data is valid exactly when URL and content type are non-empty, Mqtt data when
  broker, topic and payload are non-empty, Sms data when account SID, auth token, sender,
  recipient and payload are non-empty; the remaining fields of each do not enter.
\<close>

theorem Valid_http_mqtt_sms_iff:
  "(Valid_http h \<longleftrightarrow> http_URL h \<noteq> '''' \<and> http_ContentType h \<noteq> '''')
   \<and> Valid_http (h\<lparr>http_Payload := p, http_AuthHeader := a\<rparr>) = Valid_http h
   \<and> (Valid_mqtt m \<longleftrightarrow> mqtt_Broker m \<noteq> '''' \<and> mqtt_Topic m \<noteq> '''' \<and> mqtt_Payload m \<noteq> '''')
   \<and> Valid_mqtt (m\<lparr>mqtt_Username := u, mqtt_Password := pw, mqtt_QoS := q\<rparr>) = Valid_mqtt m
   \<and> (Valid_sms s \<longleftrightarrow>
        sms_AccountSID s \<noteq> '''' \<and> sms_AuthToken s \<noteq> '''' \<and> sms_From s \<noteq> ''''
        \<and> sms_To s \<noteq> '''' \<and> sms_Payload s \<noteq> '''')"
  by (simp add: Valid_http_def Valid_mqtt_def Valid_sms_def)

text \<open>
  C2 (fails on the code). The claim makes email data valid only when the first recipient
  is non-empty. \<^verbatim>\<open>Valid\<close> tests the length of the recipient slice, which
  \<^verbatim>\<open>getActionArgs\<close> always creates with one element: the data of
  \<^verbatim>\<open>trigger create email -payload x\<close>, with no \<^verbatim>\<open>-to\<close>, has an empty first recipient and
  is valid all the same.
\<close>

theorem Valid_email_empty_recipient:
  "(case getActionArgs ''email'' of
      Inr (EmailArgs d) \<Rightarrow>
        email_To (setFlags_email '''' '''' ''x'' d) ! 0 = ''''
        \<and> Valid_email (setFlags_email '''' '''' ''x'' d)
    | _ \<Rightarrow> False)"
  by (simp add: setFlags_email_def Valid_email_def)

section \<open>The registry of action kinds\<close>

text \<open>
  C7. For each of the four kind names, the variant that \<^verbatim>\<open>getActionArgs\<close> constructs is
  mapped back to the same name by \<^verbatim>\<open>getActionType\<close>; any other name makes
  \<^verbatim>\<open>getActionArgs\<close> panic with the unknown-action-type error, and so does
  \<^verbatim>\<open>getActionType\<close> on a value that is none of the four variants.
\<close>

theorem registry_round_trip:
  "(k \<in> {''email'', ''http'', ''mqtt'', ''sms''} \<longrightarrow>
      (\<exists>a. getActionArgs k = Inr a \<and> getActionType a = Inr k))
   \<and> (k \<notin> {''email'', ''http'', ''mqtt'', ''sms''} \<longrightarrow> getActionArgs k = Inl PanicUnknownActionType)
   \<and> ((\<forall>d. a \<noteq> EmailArgs d) \<and> (\<forall>d. a \<noteq> HttpArgs d) \<and> (\<forall>d. a \<noteq> MqttArgs d) \<and> (\<forall>d. a \<noteq> SmsArgs d)
        \<longrightarrow> getActionType a = Inl PanicUnknownActionType)"
  by (cases a) auto

theorem registry_round_trip_witness:
  "(\<exists>a. getActionArgs ''http'' = Inr a \<and> getActionType a = Inr ''http'')
   \<and> getActionArgs ''fax'' = Inl PanicUnknownActionType
   \<and> getActionType NoArgs = Inl PanicUnknownActionType"
  using registry_round_trip [of "''http''" NoArgs] registry_round_trip [of "''fax''" NoArgs]
  by simp

section \<open>Removing an action\<close>

text \<open>
  C1. After a successful fetch of a trigger with \<open>N\<close> actions, an action number above
  \<open>N + 1\<close> is rejected with the invalid-index error and only the fetch has been sent;
  the action number \<open>N + 1\<close> passes the comparison of \<open>index - 1\<close> with \<open>N\<close>, the
  slice \<^verbatim>\<open>Actions[:idx]\<close> succeeds, and the slice \<^verbatim>\<open>Actions[idx+1:]\<close> panics, again with
  only the fetch sent. (\<open>N\<close> is below \<open>2^63\<close>, as every Go length is.)
\<close>

theorem delAction_boundary:
  assumes fetch: "client (getTriggerRequest args) = (None, t)"
    and len: "length (Actions t) < 2 ^ 63"
  shows "(unat (index args) > length (Actions t) + 1 \<longrightarrow>
            delAction client args =
              ([getTriggerRequest args],
               Some (InvalidActionIndex (index args) (of_nat (length (Actions t))))))
       \<and> (unat (index args) = length (Actions t) + 1 \<longrightarrow>
            \<not> index args - 1 > of_nat (length (Actions t))
            \<and> slice_to (Actions t) (index args - 1) = Inr (Actions t)
            \<and> slice_from (Actions t) (index args - 1 + 1) = Inl PanicSliceBounds
            \<and> delAction client args = ([getTriggerRequest args], Some PanicSliceBounds))"
proof (intro conjI impI)
  let ?n = "length (Actions t)"
  have n: "unat (of_nat ?n :: u64) = ?n"
    using len by (rule unat_len_u64)
  have gt: "getTrigger' client args = ([getTriggerRequest args], t, None)"
    using fetch by (rule getTrigger'_eq)
  {
    assume big: "unat (index args) > ?n + 1"
    then have "index args \<noteq> 0" by auto
    then have "unat (index args - 1) = unat (index args) - 1"
      by (simp add: unat_minus_one)
    with big have "of_nat ?n < index args - 1"
      by (simp add: word_less_nat_alt n)
    then show "delAction client args =
              ([getTriggerRequest args],
               Some (InvalidActionIndex (index args) (of_nat ?n)))"
      by (simp add: delAction_def gt)
  }
  {
    assume eq: "unat (index args) = ?n + 1"
    then have "index args \<noteq> 0" by auto
    then have idx: "unat (index args - 1) = ?n"
      using eq by (simp add: unat_minus_one)
    show ng: "\<not> index args - 1 > of_nat ?n"
      by (simp add: word_less_nat_alt n idx)
    show st: "slice_to (Actions t) (index args - 1) = Inr (Actions t)"
      by (simp add: slice_to_def idx)
    show sf: "slice_from (Actions t) (index args - 1 + 1) = Inl PanicSliceBounds"
      using eq by (simp add: slice_from_def)
    show "delAction client args = ([getTriggerRequest args], Some PanicSliceBounds)"
      using ng sf by (simp add: delAction_def gt st)
  }
qed

theorem delAction_boundary_witness:
  "delAction sample_client (sample_remove 5)
     = ([getTriggerRequest (sample_remove 5)], Some (InvalidActionIndex 5 3))
   \<and> delAction sample_client (sample_remove 4)
     = ([getTriggerRequest (sample_remove 4)], Some PanicSliceBounds)"
  using delAction_boundary [of sample_client "sample_remove 5" sample_trigger]
    delAction_boundary [of sample_client "sample_remove 4" sample_trigger]
  by (simp add: sample_client_def sample_remove_def sample_trigger_def)

text \<open>
  C10. With the action number 0, which the validity check of the arguments refuses,
  \<open>index - 1\<close> wraps to \<open>2^64 - 1\<close>, above every length; after a successful fetch
  \<open>delAction\<close> returns the invalid-index error and has sent the fetch only.
\<close>

theorem delAction_index_zero:
  assumes zero: "index args = 0"
    and fetch: "client (getTriggerRequest args) = (None, t)"
    and len: "length (Actions t) < 2 ^ 63"
  shows "\<not> IsValid_triggerRemoveActionArgs args
       \<and> unat (index args - 1) = 2 ^ 64 - 1
       \<and> index args - 1 > of_nat (length (Actions t))
       \<and> delAction client args =
           ([getTriggerRequest args], Some (InvalidActionIndex 0 (of_nat (length (Actions t)))))"
proof -
  let ?n = "length (Actions t)"
  have n: "unat (of_nat ?n :: u64) = ?n"
    using len by (rule unat_len_u64)
  have gt: "getTrigger' client args = ([getTriggerRequest args], t, None)"
    using fetch by (rule getTrigger'_eq)
  have wrap: "unat (index args - 1) = 2 ^ 64 - 1"
    by (simp add: zero unsigned_minus_1_eq_mask mask_eq_exp_minus_1)
  have "?n < 2 ^ 64 - 1"
    using len by simp
  then have above: "of_nat ?n < index args - 1"
    unfolding word_less_nat_alt n wrap .
  have inv: "\<not> IsValid_triggerRemoveActionArgs args"
    by (simp add: IsValid_triggerRemoveActionArgs_def zero)
  have "delAction client args =
           ([getTriggerRequest args], Some (InvalidActionIndex 0 (of_nat ?n)))"
    using above by (simp add: delAction_def gt zero)
  with inv wrap above show ?thesis by blast
qed

theorem delAction_index_zero_witness:
  "delAction sample_client (sample_remove 0)
     = ([getTriggerRequest (sample_remove 0)], Some (InvalidActionIndex 0 3))"
  using delAction_index_zero [of "sample_remove 0" sample_client sample_trigger]
  by (simp add: sample_client_def sample_remove_def sample_trigger_def)

text \<open>
  C3. After a successful fetch of a trigger with \<open>N\<close> actions, removing the action
  number \<open>i\<close> with \<open>1 \<le> i \<le> N\<close> sends the fetch and then one replace request, whose
  body is the fetched trigger with the action list \<open>ys\<close>: \<open>ys\<close> has \<open>N - 1\<close> entries,
  the entries before position \<open>i\<close> are where they were and the entries after it are one
  position lower.
\<close>

theorem delAction_in_range:
  assumes fetch: "client (getTriggerRequest args) = (None, t)"
    and len: "length (Actions t) < 2 ^ 63"
    and lo: "1 \<le> unat (index args)"
    and hi: "unat (index args) \<le> length (Actions t)"
  shows "\<exists>ys. delAction client args =
                ([getTriggerRequest args, putTriggerRequest (t\<lparr>Actions := ys\<rparr>)],
                 fst (client (putTriggerRequest (t\<lparr>Actions := ys\<rparr>))))
            \<and> req_verb (putTriggerRequest (t\<lparr>Actions := ys\<rparr>) :: 'j request) = PUT
            \<and> req_body (putTriggerRequest (t\<lparr>Actions := ys\<rparr>)) = Some (t\<lparr>Actions := ys\<rparr>)
            \<and> ys = take (unat (index args) - 1) (Actions t) @ drop (unat (index args)) (Actions t)
            \<and> length ys = length (Actions t) - 1
            \<and> (\<forall>j. j + 1 < unat (index args) \<longrightarrow> ys ! j = Actions t ! j)
            \<and> (\<forall>j. unat (index args) \<le> j \<and> j < length (Actions t) \<longrightarrow> ys ! (j - 1) = Actions t ! j)"
proof -
  let ?xs = "Actions t"
  let ?n = "length ?xs"
  let ?i = "unat (index args)"
  let ?ys = "take (?i - 1) ?xs @ drop ?i ?xs"
  have n: "unat (of_nat ?n :: u64) = ?n"
    using len by (rule unat_len_u64)
  have gt: "getTrigger' client args = ([getTriggerRequest args], t, None)"
    using fetch by (rule getTrigger'_eq)
  have "index args \<noteq> 0"
    using lo by auto
  then have idx: "unat (index args - 1) = ?i - 1"
    by (simp add: unat_minus_one)
  have ok: "\<not> of_nat ?n < index args - 1"
    using hi by (simp add: word_less_nat_alt n idx)
  have st: "slice_to ?xs (index args - 1) = Inr (take (?i - 1) ?xs)"
    using hi by (simp add: slice_to_def idx)
  have sf: "slice_from ?xs (index args) = Inr (drop ?i ?xs)"
    using hi by (simp add: slice_from_def)
  have run: "delAction client args =
                ([getTriggerRequest args, putTriggerRequest (t\<lparr>Actions := ?ys\<rparr>)],
                 fst (client (putTriggerRequest (t\<lparr>Actions := ?ys\<rparr>))))"
    using ok by (simp add: delAction_def gt st sf putTrigger'_eq Let_def)
  have l: "length ?ys = ?n - 1"
    using lo hi by simp
  have front: "\<forall>j. j + 1 < ?i \<longrightarrow> ?ys ! j = ?xs ! j"
    using hi by (simp add: nth_append)
  have rear: "\<forall>j. ?i \<le> j \<and> j < ?n \<longrightarrow> ?ys ! (j - 1) = ?xs ! j"
  proof (intro allI impI)
    fix j assume j: "?i \<le> j \<and> j < ?n"
    have tl: "length (take (?i - 1) ?xs) = ?i - 1"
      using hi by simp
    have "\<not> j - 1 < ?i - 1"
      using j lo by arith
    then have "?ys ! (j - 1) = drop ?i ?xs ! (j - 1 - (?i - 1))"
      unfolding nth_append tl by simp
    also have "\<dots> = ?xs ! (?i + (j - 1 - (?i - 1)))"
      using hi by simp
    also have "?i + (j - 1 - (?i - 1)) = j"
      using j lo by arith
    finally show "?ys ! (j - 1) = ?xs ! j" .
  qed
  have put: "req_verb (putTriggerRequest (t\<lparr>Actions := ?ys\<rparr>) :: 'j request) = PUT
      \<and> req_body (putTriggerRequest (t\<lparr>Actions := ?ys\<rparr>)) = Some (t\<lparr>Actions := ?ys\<rparr>)"
    by (simp add: putTriggerRequest_fields)
  from run put l front rear show ?thesis by blast
qed

theorem delAction_in_range_witness:
  "\<exists>ys. delAction sample_client (sample_remove 2) =
           ([getTriggerRequest (sample_remove 2), putTriggerRequest (sample_trigger\<lparr>Actions := ys\<rparr>)],
            None)
        \<and> length ys = 2 \<and> ys ! 0 = sample_action ''email'' \<and> ys ! 1 = sample_action ''sms''"
proof -
  from delAction_in_range [of sample_client "sample_remove 2" sample_trigger]
  obtain ys where
    run: "delAction sample_client (sample_remove 2) =
           ([getTriggerRequest (sample_remove 2), putTriggerRequest (sample_trigger\<lparr>Actions := ys\<rparr>)],
            fst (sample_client (putTriggerRequest (sample_trigger\<lparr>Actions := ys\<rparr>))))"
    and l: "length ys = length (Actions sample_trigger) - 1"
    and front: "\<forall>j. j + 1 < unat (index (sample_remove 2)) \<longrightarrow> ys ! j = Actions sample_trigger ! j"
    and rear: "\<forall>j. unat (index (sample_remove 2)) \<le> j \<and> j < length (Actions sample_trigger)
                 \<longrightarrow> ys ! (j - 1) = Actions sample_trigger ! j"
    by (auto simp: sample_client_def sample_remove_def sample_trigger_def)
  from front [rule_format, of 0] have "ys ! 0 = sample_action ''email''"
    by (simp add: sample_remove_def sample_trigger_def)
  moreover from rear [rule_format, of 2] have "ys ! 1 = sample_action ''sms''"
    by (simp add: sample_remove_def sample_trigger_def)
  moreover from l have "length ys = 2"
    by (simp add: sample_trigger_def)
  moreover from run have "delAction sample_client (sample_remove 2) =
           ([getTriggerRequest (sample_remove 2), putTriggerRequest (sample_trigger\<lparr>Actions := ys\<rparr>)],
            None)"
    by (simp add: sample_client_def)
  ultimately show ?thesis by blast
qed

section \<open>Adding an action\<close>

text \<open>
  C4. After a successful fetch of a trigger with \<open>N\<close> actions, add-action sends the fetch
  and then one replace request whose body is the fetched trigger with \<open>N + 1\<close> actions:
  the first \<open>N\<close> are the fetched ones in their order, the last is the new entry, with
  the kind tag of the bound data as \<open>Type\<close>, the given \<open>minDelay\<close> and the bound data as
  \<open>Args\<close>.
\<close>

theorem addAction_appends:
  assumes fetch: "client (getTriggerRequest args) = (None, t)"
    and kind: "getActionType (add_data args) = Inr ty"
  shows "\<exists>ys. addAction client args =
                ([getTriggerRequest args, putTriggerRequest (t\<lparr>Actions := ys\<rparr>)],
                 fst (client (putTriggerRequest (t\<lparr>Actions := ys\<rparr>))))
            \<and> req_verb (putTriggerRequest (t\<lparr>Actions := ys\<rparr>) :: 'j request) = PUT
            \<and> req_body (putTriggerRequest (t\<lparr>Actions := ys\<rparr>)) = Some (t\<lparr>Actions := ys\<rparr>)
            \<and> length ys = length (Actions t) + 1
            \<and> last ys = \<lparr>Type = ty, MinDelay = add_minDelay args, Args = Bound (add_data args)\<rparr>
            \<and> take (length (Actions t)) ys = Actions t"
proof -
  let ?new = "\<lparr>Type = ty, MinDelay = add_minDelay args, Args = Bound (add_data args)\<rparr>"
  let ?ys = "Actions t @ [?new]"
  have gt: "getTrigger' client args = ([getTriggerRequest args], t, None)"
    using fetch by (rule getTrigger'_eq)
  have run: "addAction client args =
                ([getTriggerRequest args, putTriggerRequest (t\<lparr>Actions := ?ys\<rparr>)],
                 fst (client (putTriggerRequest (t\<lparr>Actions := ?ys\<rparr>))))"
    by (simp add: addAction_def gt kind putTrigger'_eq Let_def)
  have put: "req_verb (putTriggerRequest (t\<lparr>Actions := ?ys\<rparr>) :: 'j request) = PUT
      \<and> req_body (putTriggerRequest (t\<lparr>Actions := ?ys\<rparr>)) = Some (t\<lparr>Actions := ?ys\<rparr>)"
    by (simp add: putTriggerRequest_fields)
  have shape: "length ?ys = length (Actions t) + 1 \<and> last ?ys = ?new
      \<and> take (length (Actions t)) ?ys = Actions t"
    by simp
  from run put shape show ?thesis by blast
qed

theorem addAction_appends_witness:
  "\<exists>ys. fst (addAction sample_client sample_add) =
           [getTriggerRequest sample_add, putTriggerRequest (sample_trigger\<lparr>Actions := ys\<rparr>)]
        \<and> length ys = 4
        \<and> last ys = \<lparr>Type = ''http'', MinDelay = 500, Args = Bound sample_http\<rparr>
        \<and> take 3 ys = [sample_action ''email'', sample_action ''http'', sample_action ''sms'']"
proof -
  from addAction_appends [of sample_client sample_add sample_trigger "''http''"]
  obtain ys where
    run: "addAction sample_client sample_add =
           ([getTriggerRequest sample_add, putTriggerRequest (sample_trigger\<lparr>Actions := ys\<rparr>)],
            fst (sample_client (putTriggerRequest (sample_trigger\<lparr>Actions := ys\<rparr>))))"
    and l: "length ys = length (Actions sample_trigger) + 1"
    and la: "last ys = \<lparr>Type = ''http'', MinDelay = add_minDelay sample_add,
                         Args = Bound (add_data sample_add)\<rparr>"
    and tk: "take (length (Actions sample_trigger)) ys = Actions sample_trigger"
    by (auto simp: sample_client_def sample_add_def sample_http_def)
  from run have "fst (addAction sample_client sample_add) =
           [getTriggerRequest sample_add, putTriggerRequest (sample_trigger\<lparr>Actions := ys\<rparr>)]"
    by simp
  moreover from l have "length ys = 4"
    by (simp add: sample_trigger_def)
  moreover from la have "last ys = \<lparr>Type = ''http'', MinDelay = 500, Args = Bound sample_http\<rparr>"
    by (simp add: sample_add_def)
  moreover from tk have "take 3 ys = [sample_action ''email'', sample_action ''http'', sample_action ''sms'']"
    by (simp add: sample_trigger_def eval_nat_numeral)
  ultimately show ?thesis by blast
qed

section \<open>Which key looks a trigger up\<close>

text \<open>
  C8. The lookup request of get, delete, add-action and remove-action: with a positive
  trigger id its path is \<^verbatim>\<open>/v1/triggers/{id}\<close> and it carries no parameter, whatever the
  trigger name is; with the trigger id 0 its path is \<^verbatim>\<open>/v1/triggers\<close> and its only
  parameter is \<^verbatim>\<open>name\<close>, set to the trigger name.
\<close>

theorem lookup_key_precedence:
  fixes g d :: triggerBaseArgs and a :: addActionArgs and r :: triggerRemoveActionArgs
    and b :: "'a triggerBaseArgs_scheme" and client :: "'j client"
  shows "fst (getTrigger client g) = [getTriggerRequest g]
       \<and> fst (deleteTrigger client d) = [deleteTriggerRequest d]
       \<and> hd (fst (addAction client a)) = getTriggerRequest a
       \<and> hd (fst (delAction client r)) = getTriggerRequest r
       \<and> (\<forall>q \<in> {getTriggerRequest b, deleteTriggerRequest b :: 'j request}.
            (triggerId b > 0 \<longrightarrow>
               req_path q = ''/v1/triggers/'' @ decimal (unat (triggerId b)) \<and> req_params q = [])
          \<and> (triggerId b = 0 \<longrightarrow>
               req_path q = ''/v1/triggers'' \<and> req_params q = [(''name'', triggerName b)]))"
proof -
  have "fst (getTrigger client g) = [getTriggerRequest g]"
    by (simp add: getTrigger_def getTrigger'_def Let_def split: prod.splits)
  moreover have "fst (deleteTrigger client d) = [deleteTriggerRequest d]"
    by (simp add: deleteTrigger_def Let_def split: prod.splits)
  moreover note addAction_first [of client a] delAction_first [of client r]
  moreover have "\<forall>q \<in> {getTriggerRequest b, deleteTriggerRequest b :: 'j request}.
            (triggerId b > 0 \<longrightarrow>
               req_path q = ''/v1/triggers/'' @ decimal (unat (triggerId b)) \<and> req_params q = [])
          \<and> (triggerId b = 0 \<longrightarrow>
               req_path q = ''/v1/triggers'' \<and> req_params q = [(''name'', triggerName b)])"
    by (auto simp: lookup_fields getApiPath_def getUrlForTriggerId_eq baseApiPath_trigger_def
          word_gt_0)
  ultimately show ?thesis by blast
qed

theorem lookup_key_precedence_witness:
  "req_path (getTriggerRequest (sample_base 7) :: unit request) = ''/v1/triggers/7''
   \<and> req_params (getTriggerRequest (sample_base 7) :: unit request) = []
   \<and> req_path (deleteTriggerRequest (sample_base 0) :: unit request) = ''/v1/triggers''
   \<and> req_params (deleteTriggerRequest (sample_base 0) :: unit request) = [(''name'', ''t1'')]"
  using lookup_key_precedence [of sample_client "sample_base 7" "sample_base 7" sample_add
      "sample_remove 1" "sample_base 7"]
    lookup_key_precedence [of sample_client "sample_base 7" "sample_base 7" sample_add
      "sample_remove 1" "sample_base 0"]
  by (simp add: sample_base_def decimal.simps digit_def)

section \<open>Creating a trigger\<close>

text \<open>
  C9. The body that create posts has a non-nil \<^verbatim>\<open>ReleaseWhenPtr\<close> exactly when the
  \<^verbatim>\<open>releaseWhen\<close> string of the arguments is non-empty; the wire form has no
  \<^verbatim>\<open>release_when\<close> member exactly when the pointer is nil, and otherwise the member is the
  string.
\<close>

theorem createTrigger_ReleaseWhen:
  fixes client :: "'j client"
  assumes kind: "getActionType (create_data args) = Inr ty"
  shows "\<exists>req body. fst (createTrigger apiPath client args) = [req]
            \<and> req_verb req = POST \<and> req_path req = apiPath \<and> req_body req = Some body
            \<and> (ReleaseWhenPtr body \<noteq> None \<longleftrightarrow> releaseWhen args \<noteq> '''')
            \<and> (map_of (wire_triggerData body) ''release_when'' = None \<longleftrightarrow> ReleaseWhenPtr body = None)
            \<and> (releaseWhen args \<noteq> '''' \<longrightarrow>
                 map_of (wire_triggerData body) ''release_when'' = Some (WStr (releaseWhen args)))"
proof -
  let ?ptr = "if length (releaseWhen args) > 0 then Some (releaseWhen args) else None"
  let ?body = "newTrigger (TriggerName args) (ProjectId args) (DataExpiry args) (FireWhen args)
                 ?ptr (Namespace args)
                 [\<lparr>Type = ty, MinDelay = create_minDelay args, Args = Bound (create_data args)\<rparr>]
               :: 'j fullTrigger"
  let ?req = "Body ?body (DumpResponse (dumpResponse args) (DumpRequest (dumpRequest args)
                (ProjectToken (ProjectId ?body) (Expect 201 (newRequest POST apiPath :: 'j request)))))"
  have run: "fst (createTrigger apiPath client args) = [?req]"
    by (simp add: createTrigger_def kind Let_def split: prod.splits)
  have req: "req_verb ?req = POST \<and> req_path ?req = apiPath \<and> req_body ?req = Some ?body"
    by (simp add: Body_def DumpResponse_def DumpRequest_def ProjectToken_def Expect_def
          newRequest_def)
  have ptr: "ReleaseWhenPtr ?body = ?ptr"
    by (simp add: newTrigger_def)
  have p1: "ReleaseWhenPtr ?body \<noteq> None \<longleftrightarrow> releaseWhen args \<noteq> ''''"
    unfolding ptr by simp
  have p2: "map_of (wire_triggerData ?body) ''release_when'' = None \<longleftrightarrow> ReleaseWhenPtr ?body = None"
    unfolding wire_release_when by simp
  have p3: "releaseWhen args \<noteq> '''' \<longrightarrow>
              map_of (wire_triggerData ?body) ''release_when'' = Some (WStr (releaseWhen args))"
    unfolding wire_release_when ptr by simp
  show ?thesis
    by (rule exI [of _ ?req], rule exI [of _ ?body]) (use run req p1 p2 p3 in blast)
qed

theorem createTrigger_ReleaseWhen_witness:
  "\<exists>req body. fst (createTrigger ''/v1/triggers'' sample_client (sample_create ''{{temp}}<22'')) = [req]
      \<and> req_body req = Some body
      \<and> ReleaseWhenPtr body = Some ''{{temp}}<22''
      \<and> map_of (wire_triggerData body) ''release_when'' = Some (WStr ''{{temp}}<22'')"
proof -
  from createTrigger_ReleaseWhen [of "sample_create ''{{temp}}<22''" "''http''" "''/v1/triggers''" sample_client]
  obtain req body where
    run: "fst (createTrigger ''/v1/triggers'' sample_client (sample_create ''{{temp}}<22'')) = [req]"
    and b: "req_body req = Some body"
    and p: "ReleaseWhenPtr body \<noteq> None"
    and w: "map_of (wire_triggerData body) ''release_when'' = Some (WStr ''{{temp}}<22'')"
    by (auto simp: sample_create_def sample_http_def)
  from w have "ReleaseWhenPtr body = Some ''{{temp}}<22''"
    unfolding wire_release_when by (cases "ReleaseWhenPtr body") auto
  with run b w show ?thesis by blast
qed

end
